theory Spec2Isabelle
  imports Complex_Main
begin

section \<open>Data model\<close>

text \<open>
  The valuation engine of \<^verbatim>\<open>models/dcf_model.py\<close> and the inline computation of
  \<^verbatim>\<open>valuation_dashboard.py\<close>. Python floats are read as real numbers: rounding and
  overflow are not part of the model. What is kept of the number types is the difference
  that decides the error behaviour: dividing a Python float by zero raises
  ZeroDivisionError, dividing a numpy float64 by zero gives inf or nan and goes on.
\<close>

datatype error = ZeroDivisionError | IndexError

record DCFModel =
  current_revenue :: real
  growth_rates :: "real list"
  ebit_margin :: real
  tax_rate :: real
  wacc :: real
  terminal_growth :: real
  fcf_conversion :: real

text \<open>The dictionary returned by \<^verbatim>\<open>run_valuation\<close>, one field per key.\<close>

record valuation_result =
  revenues :: "real list"
  ebits :: "real list"
  nopats :: "real list"
  fcfs :: "real list"
  discount_factors :: "real list"
  pv_fcfs :: "real list"
  terminal_value :: real
  pv_terminal_value :: real
  pv_forecast_period :: real
  enterprise_value :: real

section \<open>Python primitives\<close>

text \<open>\<^verbatim>\<open>x / y\<close> on Python floats.\<close>

definition py_div :: "real \<Rightarrow> real \<Rightarrow> error + real" where
  "py_div x y = (if y = 0 then Inl ZeroDivisionError else Inr (x / y))"

text \<open>\<^verbatim>\<open>xs[-1]\<close>.\<close>

definition py_last :: "'a list \<Rightarrow> error + 'a" where
  "py_last xs = (if xs = [] then Inl IndexError else Inr (last xs))"

text \<open>\<^verbatim>\<open>sum(xs)\<close>: starts from 0 and adds from the left.\<close>

definition py_sum :: "real list \<Rightarrow> real" where
  "py_sum xs = foldl (+) 0 xs"

text \<open>A list comprehension whose element expression may raise: the first error ends it.\<close>

fun comprehension :: "('a \<Rightarrow> error + 'b) \<Rightarrow> 'a list \<Rightarrow> error + 'b list" where
  "comprehension f [] = Inr []"
| "comprehension f (x # xs) =
     (case f x of
        Inl e \<Rightarrow> Inl e
      | Inr y \<Rightarrow> (case comprehension f xs of Inl e \<Rightarrow> Inl e | Inr ys \<Rightarrow> Inr (y # ys)))"

section \<open>Projection\<close>

text \<open>
  The loop of \<^verbatim>\<open>project_revenue\<close>: \<^verbatim>\<open>revenues.append(revenues[-1] * (1 + growth))\<close>
  for each growth rate. The list starts as \<^verbatim>\<open>[current_revenue]\<close>, so it is never empty.
\<close>

fun project_loop :: "real list \<Rightarrow> real list \<Rightarrow> real list" where
  "project_loop revs [] = revs"
| "project_loop revs (growth # rest) =
     project_loop (revs @ [last revs * (1 + growth)]) rest"

definition project_revenue :: "DCFModel \<Rightarrow> real list" where
  "project_revenue self = drop 1 (project_loop [current_revenue self] (growth_rates self))"

definition calculate_ebit :: "DCFModel \<Rightarrow> real list \<Rightarrow> real list" where
  "calculate_ebit self revs = map (\<lambda>rev. rev * ebit_margin self) revs"

definition calculate_nopat :: "DCFModel \<Rightarrow> real list \<Rightarrow> real list" where
  "calculate_nopat self es = map (\<lambda>ebit. ebit * (1 - tax_rate self)) es"

definition calculate_fcf :: "DCFModel \<Rightarrow> real list \<Rightarrow> real list" where
  "calculate_fcf self ns = map (\<lambda>nopat. nopat * fcf_conversion self) ns"

section \<open>Discounting\<close>

definition calculate_discount_factors :: "DCFModel \<Rightarrow> error + real list" where
  "calculate_discount_factors self =
     comprehension (\<lambda>year. py_div 1 ((1 + wacc self) ^ year)) [1..<6]"

definition calculate_pv_fcf :: "DCFModel \<Rightarrow> real list \<Rightarrow> real list \<Rightarrow> real list" where
  "calculate_pv_fcf self fs dfs = map (\<lambda>(fcf, df). fcf * df) (zip fs dfs)"

definition calculate_terminal_value :: "DCFModel \<Rightarrow> real \<Rightarrow> error + real" where
  "calculate_terminal_value self final_fcf =
     py_div (final_fcf * (1 + terminal_growth self)) (wacc self - terminal_growth self)"

definition calculate_pv_terminal_value :: "DCFModel \<Rightarrow> real \<Rightarrow> real \<Rightarrow> real" where
  "calculate_pv_terminal_value self tv final_discount_factor = tv * final_discount_factor"

section \<open>Base valuation\<close>

definition run_valuation :: "DCFModel \<Rightarrow> error + valuation_result" where
  "run_valuation self =
     (let revs = project_revenue self;
          es = calculate_ebit self revs;
          ns = calculate_nopat self es;
          fs = calculate_fcf self ns
      in case calculate_discount_factors self of
           Inl e \<Rightarrow> Inl e
         | Inr dfs \<Rightarrow>
             (let pvs = calculate_pv_fcf self fs dfs
              in case py_last fs of
                   Inl e \<Rightarrow> Inl e
                 | Inr final_fcf \<Rightarrow>
                     (case calculate_terminal_value self final_fcf of
                        Inl e \<Rightarrow> Inl e
                      | Inr tv \<Rightarrow>
                          (case py_last dfs of
                             Inl e \<Rightarrow> Inl e
                           | Inr final_df \<Rightarrow>
                               (let pv_tv = calculate_pv_terminal_value self tv final_df;
                                    pv_forecast = py_sum pvs;
                                    ev = pv_forecast + pv_tv
                                in Inr \<lparr>revenues = revs, ebits = es, nopats = ns, fcfs = fs,
                                        discount_factors = dfs, pv_fcfs = pvs,
                                        terminal_value = tv, pv_terminal_value = pv_tv,
                                        pv_forecast_period = pv_forecast,
                                        enterprise_value = ev\<rparr>)))))"

section \<open>Sensitivity sweep\<close>

text \<open>
  The axes of the sweep are numpy arrays, so \<^verbatim>\<open>w\<close> and \<^verbatim>\<open>tg\<close> are float64 scalars and
  every result computed from them is one as well. A float64 division by zero does not
  raise: it gives inf, -inf or nan (with a warning), and so does every sum or product that
  has one of them as an operand. \<open>NonFinite\<close> stands for these three values.
\<close>

datatype npfloat = Fin real | NonFinite

definition np_div :: "real \<Rightarrow> real \<Rightarrow> npfloat" where
  "np_div x y = (if y = 0 then NonFinite else Fin (x / y))"

fun np_mul :: "npfloat \<Rightarrow> npfloat \<Rightarrow> npfloat" where
  "np_mul (Fin x) (Fin y) = Fin (x * y)"
| "np_mul _ _ = NonFinite"

fun np_add :: "npfloat \<Rightarrow> npfloat \<Rightarrow> npfloat" where
  "np_add (Fin x) (Fin y) = Fin (x + y)"
| "np_add _ _ = NonFinite"

definition np_sum :: "npfloat list \<Rightarrow> npfloat" where
  "np_sum xs = foldl np_add (Fin 0) xs"

text \<open>The body of the inner loop: the value stored at \<^verbatim>\<open>sensitivity_matrix[i, j]\<close>.\<close>

definition sweep_cell :: "real list \<Rightarrow> real \<Rightarrow> real \<Rightarrow> error + npfloat" where
  "sweep_cell fs w tg =
     (let temp_dfs = map (\<lambda>year. np_div 1 ((1 + w) ^ year)) [1..<6];
          temp_pvs = map (\<lambda>(fcf, df). np_mul (Fin fcf) df) (zip fs temp_dfs)
      in case py_last fs of
           Inl e \<Rightarrow> Inl e
         | Inr final_fcf \<Rightarrow>
             (let temp_tv = np_div (final_fcf * (1 + tg)) (w - tg)
              in case py_last temp_dfs of
                   Inl e \<Rightarrow> Inl e
                 | Inr final_df \<Rightarrow>
                     Inr (np_add (np_sum temp_pvs) (np_mul temp_tv final_df))))"

text \<open>
  \<^verbatim>\<open>for j, w in enumerate(wacc_range)\<close> and \<^verbatim>\<open>for i, tg in enumerate(tg_range)\<close>, the
  matrix passed along and updated in place.
\<close>

fun inner_loop ::
  "real list \<Rightarrow> nat \<Rightarrow> real \<Rightarrow> nat \<Rightarrow> real list \<Rightarrow> npfloat list list \<Rightarrow> error + npfloat list list"
where
  "inner_loop fs i tg j [] m = Inr m"
| "inner_loop fs i tg j (w # ws) m =
     (case sweep_cell fs w tg of
        Inl e \<Rightarrow> Inl e
      | Inr v \<Rightarrow> inner_loop fs i tg (Suc j) ws (m[i := (m ! i)[j := v]]))"

fun outer_loop ::
  "real list \<Rightarrow> real list \<Rightarrow> nat \<Rightarrow> real list \<Rightarrow> npfloat list list \<Rightarrow> error + npfloat list list"
where
  "outer_loop fs wacc_range i [] m = Inr m"
| "outer_loop fs wacc_range i (tg # tgs) m =
     (case inner_loop fs i tg 0 wacc_range m of
        Inl e \<Rightarrow> Inl e
      | Inr m' \<Rightarrow> outer_loop fs wacc_range (Suc i) tgs m')"

definition sensitivity_analysis ::
  "DCFModel \<Rightarrow> real list \<Rightarrow> real list \<Rightarrow> error + npfloat list list"
where
  "sensitivity_analysis self wacc_range tg_range =
     (let revs = project_revenue self;
          es = calculate_ebit self revs;
          ns = calculate_nopat self es;
          fs = calculate_fcf self ns;
          sensitivity_matrix = replicate (length tg_range) (replicate (length wacc_range) (Fin 0))
      in outer_loop fs wacc_range 0 tg_range sensitivity_matrix)"

section \<open>WACC sensitivity\<close>

definition calculate_wacc_sensitivity :: "DCFModel \<Rightarrow> error + real \<times> real" where
  "calculate_wacc_sensitivity self =
     (case run_valuation self of
        Inl e \<Rightarrow> Inl e
      | Inr results \<Rightarrow>
          (let base_ev = enterprise_value results;
               model_plus = \<lparr>current_revenue = current_revenue self,
                             growth_rates = growth_rates self,
                             ebit_margin = ebit_margin self,
                             tax_rate = tax_rate self,
                             wacc = wacc self + 1 / 100,
                             terminal_growth = terminal_growth self,
                             fcf_conversion = fcf_conversion self\<rparr>
           in case run_valuation model_plus of
                Inl e \<Rightarrow> Inl e
              | Inr results_plus \<Rightarrow>
                  (let ev_plus = enterprise_value results_plus;
                       model_minus = \<lparr>current_revenue = current_revenue self,
                                      growth_rates = growth_rates self,
                                      ebit_margin = ebit_margin self,
                                      tax_rate = tax_rate self,
                                      wacc = wacc self - 1 / 100,
                                      terminal_growth = terminal_growth self,
                                      fcf_conversion = fcf_conversion self\<rparr>
                   in case run_valuation model_minus of
                        Inl e \<Rightarrow> Inl e
                      | Inr results_minus \<Rightarrow>
                          (let ev_minus = enterprise_value results_minus
                           in case py_div (ev_minus - ev_plus) (2 * base_ev) of
                                Inl e \<Rightarrow> Inl e
                              | Inr sensitivity \<Rightarrow> Inr (sensitivity, base_ev)))))"

text \<open>
  In the definition above \<^verbatim>\<open>0.01\<close> is the real number 1/100 and the two
  perturbations are exact. The code adds and subtracts binary floats, which round: the
  float it computes for \<^verbatim>\<open>0.06 - 0.01\<close> is 0.049999999999999996, not the float 0.05.
  Which rate a perturbed model gets decides whether its valuation divides by zero, so the
  operation is given once more with the two float operations left open: \<open>plus01 x\<close>
  stands for the float computed for \<^verbatim>\<open>x + 0.01\<close> and \<open>minus01 x\<close> for the one
  computed for \<^verbatim>\<open>x - 0.01\<close>, whatever they are.
\<close>

definition calculate_wacc_sensitivity_rounded ::
  "(real \<Rightarrow> real) \<Rightarrow> (real \<Rightarrow> real) \<Rightarrow> DCFModel \<Rightarrow> error + real \<times> real"
where
  "calculate_wacc_sensitivity_rounded plus01 minus01 self =
     (case run_valuation self of
        Inl e \<Rightarrow> Inl e
      | Inr results \<Rightarrow>
          (let base_ev = enterprise_value results;
               model_plus = \<lparr>current_revenue = current_revenue self,
                             growth_rates = growth_rates self,
                             ebit_margin = ebit_margin self,
                             tax_rate = tax_rate self,
                             wacc = plus01 (wacc self),
                             terminal_growth = terminal_growth self,
                             fcf_conversion = fcf_conversion self\<rparr>
           in case run_valuation model_plus of
                Inl e \<Rightarrow> Inl e
              | Inr results_plus \<Rightarrow>
                  (let ev_plus = enterprise_value results_plus;
                       model_minus = \<lparr>current_revenue = current_revenue self,
                                      growth_rates = growth_rates self,
                                      ebit_margin = ebit_margin self,
                                      tax_rate = tax_rate self,
                                      wacc = minus01 (wacc self),
                                      terminal_growth = terminal_growth self,
                                      fcf_conversion = fcf_conversion self\<rparr>
                   in case run_valuation model_minus of
                        Inl e \<Rightarrow> Inl e
                      | Inr results_minus \<Rightarrow>
                          (let ev_minus = enterprise_value results_minus
                           in case py_div (ev_minus - ev_plus) (2 * base_ev) of
                                Inl e \<Rightarrow> Inl e
                              | Inr sensitivity \<Rightarrow> Inr (sensitivity, base_ev)))))"

section \<open>The inline computation of the dashboard script\<close>

text \<open>
  \<^verbatim>\<open>valuation_dashboard.py\<close> computes the same quantities at top level, from its own
  sidebar inputs, without calling \<^verbatim>\<open>DCFModel\<close>. Its variables are collected in a
  \<open>valuation_result\<close>, so that the two computations can be compared field by field.
\<close>

fun dashboard_revenue_loop :: "real list \<Rightarrow> real list \<Rightarrow> real list" where
  "dashboard_revenue_loop revs [] = revs"
| "dashboard_revenue_loop revs (growth # rest) =
     dashboard_revenue_loop (revs @ [last revs * (1 + growth)]) rest"

definition dashboard_calculations ::
  "real \<Rightarrow> real list \<Rightarrow> real \<Rightarrow> real \<Rightarrow> real \<Rightarrow> real \<Rightarrow> real \<Rightarrow> error + valuation_result"
where
  "dashboard_calculations revenue0 rates margin tax w tg conversion =
     (let revs = dashboard_revenue_loop [revenue0] rates;
          projected_revenues = drop 1 revs;
          es = map (\<lambda>rev. rev * margin) projected_revenues;
          ns = map (\<lambda>ebit. ebit * (1 - tax)) es;
          fs = map (\<lambda>nopat. nopat * conversion) ns
      in case comprehension (\<lambda>year. py_div 1 ((1 + w) ^ year)) [1..<6] of
           Inl e \<Rightarrow> Inl e
         | Inr dfs \<Rightarrow>
             (let pvs = map (\<lambda>(fcf, df). fcf * df) (zip fs dfs)
              in case py_last fs of
                   Inl e \<Rightarrow> Inl e
                 | Inr final_fcf \<Rightarrow>
                     (case py_div (final_fcf * (1 + tg)) (w - tg) of
                        Inl e \<Rightarrow> Inl e
                      | Inr tv \<Rightarrow>
                          (case py_last dfs of
                             Inl e \<Rightarrow> Inl e
                           | Inr final_df \<Rightarrow>
                               (let pv_tv = tv * final_df;
                                    pv_forecast = py_sum pvs;
                                    ev = pv_forecast + pv_tv
                                in Inr \<lparr>revenues = projected_revenues, ebits = es, nopats = ns,
                                        fcfs = fs, discount_factors = dfs, pv_fcfs = pvs,
                                        terminal_value = tv, pv_terminal_value = pv_tv,
                                        pv_forecast_period = pv_forecast,
                                        enterprise_value = ev\<rparr>)))))"

section \<open>Example inputs\<close>

text \<open>
  The scenario of the specification's testable properties, a flat case with round
  numbers (no growth, every operating ratio 1, a discount rate of 100 percent), and the
  scenario with the discount rate below the terminal growth rate.
\<close>

definition scenario :: DCFModel where
  "scenario = \<lparr>current_revenue = 100,
               growth_rates = [15 / 100, 12 / 100, 10 / 100, 8 / 100, 6 / 100],
               ebit_margin = 20 / 100, tax_rate = 25 / 100, wacc = 10 / 100,
               terminal_growth = 3 / 100, fcf_conversion = 80 / 100\<rparr>"

definition flat_case :: DCFModel where
  "flat_case = \<lparr>current_revenue = 100, growth_rates = [0, 0, 0, 0, 0],
                ebit_margin = 1, tax_rate = 0, wacc = 1,
                terminal_growth = 0, fcf_conversion = 1\<rparr>"

definition inverted_case :: DCFModel where
  "inverted_case = \<lparr>current_revenue = 100,
                    growth_rates = [15 / 100, 12 / 100, 10 / 100, 8 / 100, 6 / 100],
                    ebit_margin = 20 / 100, tax_rate = 25 / 100, wacc = 3 / 100,
                    terminal_growth = 5 / 100, fcf_conversion = 80 / 100\<rparr>"

text \<open>
  The scenario with a discount rate of 6 percent and a terminal growth rate of 5 percent,
  the two perturbations in exact arithmetic, and a subtraction that lands below the
  decimal difference by \<open>1 / 2 ^ 57\<close>, as the float subtraction does at 0.06.
\<close>

definition six_five_case :: DCFModel where
  "six_five_case = \<lparr>current_revenue = 100,
                    growth_rates = [15 / 100, 12 / 100, 10 / 100, 8 / 100, 6 / 100],
                    ebit_margin = 20 / 100, tax_rate = 25 / 100, wacc = 6 / 100,
                    terminal_growth = 5 / 100, fcf_conversion = 80 / 100\<rparr>"

definition exact_plus01 :: "real \<Rightarrow> real" where
  "exact_plus01 x = x + 1 / 100"

definition exact_minus01 :: "real \<Rightarrow> real" where
  "exact_minus01 x = x - 1 / 100"

definition rounded_minus01 :: "real \<Rightarrow> real" where
  "rounded_minus01 x = x - 1 / 100 - 1 / 2 ^ 57"


text \<open>
  The values the base valuation returns on the flat case, a model with seven growth
  rates and its values, and a model with no growth rate at all.
\<close>

definition flat_result :: valuation_result where
  "flat_result = \<lparr>revenues = [100, 100, 100, 100, 100], ebits = [100, 100, 100, 100, 100],
                  nopats = [100, 100, 100, 100, 100], fcfs = [100, 100, 100, 100, 100],
                  discount_factors = [1 / 2, 1 / 4, 1 / 8, 1 / 16, 1 / 32],
                  pv_fcfs = [50, 25, 25 / 2, 25 / 4, 25 / 8],
                  terminal_value = 100, pv_terminal_value = 25 / 8,
                  pv_forecast_period = 775 / 8, enterprise_value = 100\<rparr>"

definition seven_years :: DCFModel where
  "seven_years = \<lparr>current_revenue = 100, growth_rates = [0, 0, 0, 0, 0, 0, 1],
                  ebit_margin = 1, tax_rate = 0, wacc = 1,
                  terminal_growth = 0, fcf_conversion = 1\<rparr>"

definition seven_years_result :: valuation_result where
  "seven_years_result =
     \<lparr>revenues = [100, 100, 100, 100, 100, 100, 200], ebits = [100, 100, 100, 100, 100, 100, 200],
      nopats = [100, 100, 100, 100, 100, 100, 200], fcfs = [100, 100, 100, 100, 100, 100, 200],
      discount_factors = [1 / 2, 1 / 4, 1 / 8, 1 / 16, 1 / 32],
      pv_fcfs = [50, 25, 25 / 2, 25 / 4, 25 / 8],
      terminal_value = 200, pv_terminal_value = 25 / 4,
      pv_forecast_period = 775 / 8, enterprise_value = 825 / 8\<rparr>"

definition no_years :: DCFModel where
  "no_years = \<lparr>current_revenue = 100, growth_rates = [],
               ebit_margin = 1, tax_rate = 0, wacc = 1,
               terminal_growth = 0, fcf_conversion = 1\<rparr>"

text \<open>The scenario with the discount rate one point above the terminal growth rate.\<close>

definition tight_case :: DCFModel where
  "tight_case = \<lparr>current_revenue = 100,
                 growth_rates = [15 / 100, 12 / 100, 10 / 100, 8 / 100, 6 / 100],
                 ebit_margin = 20 / 100, tax_rate = 25 / 100, wacc = 4 / 100,
                 terminal_growth = 3 / 100, fcf_conversion = 80 / 100\<rparr>"

text \<open>
  Two axes for a sweep over the flat case, and the matrix the sweep returns on them. The
  second growth rate equals the first rate, and the third one lies above it.
\<close>

definition example_rates :: "real list" where
  "example_rates = [1 / 2, 1]"

definition example_growths :: "real list" where
  "example_growths = [0, 1 / 2, 3 / 4]"

definition example_matrix :: "npfloat list list" where
  "example_matrix =
     [[Fin 200, Fin 100], [NonFinite, Fin (425 / 4)], [Fin (2200 / 27), Fin (475 / 4)]]"

text \<open>
  The scenario with a first-year growth rate of -100 percent, after which every revenue
  is zero, and the flat case with a discount rate below -100 percent.
\<close>

definition collapse_case :: DCFModel where
  "collapse_case = \<lparr>current_revenue = 100,
                    growth_rates = [- 1, 12 / 100, 10 / 100, 8 / 100, 6 / 100],
                    ebit_margin = 20 / 100, tax_rate = 25 / 100, wacc = 10 / 100,
                    terminal_growth = 3 / 100, fcf_conversion = 80 / 100\<rparr>"

definition negative_rate_case :: DCFModel where
  "negative_rate_case = \<lparr>current_revenue = 100, growth_rates = [0, 0, 0, 0, 0],
                         ebit_margin = 1, tax_rate = 0, wacc = - 3,
                         terminal_growth = - 10, fcf_conversion = 1\<rparr>"

section \<open>Auxiliary notions\<close>

text \<open>
  The cash-flow series a model projects, and the five discount factors of a rate, as
  closed expressions to state results with.
\<close>

definition projected_fcfs :: "DCFModel \<Rightarrow> real list" where
  "projected_fcfs self =
     calculate_fcf self (calculate_nopat self (calculate_ebit self (project_revenue self)))"

definition factors :: "real \<Rightarrow> real list" where
  "factors w = map (\<lambda>year. 1 / (1 + w) ^ year) [1..<6]"

text \<open>
  The value a cell of the sweep holds for cash flows \<open>fs\<close>, rate \<open>w\<close> and growth rate
  \<open>tg\<close>: non-finite where a division by zero occurs, the sum of the present values and
  of the discounted terminal value elsewhere.
\<close>

definition grid_value :: "real list \<Rightarrow> real \<Rightarrow> real \<Rightarrow> npfloat" where
  "grid_value fs w tg =
     (if w = - 1 \<or> w = tg then NonFinite
      else Fin (py_sum (map (\<lambda>(fcf, df). fcf * df) (zip fs (factors w)))
                 + last fs * (1 + tg) / (w - tg) * (1 / (1 + w) ^ 5)))"

section \<open>Projection series\<close>

lemma project_loop_length: "length (project_loop revs gs) = length revs + length gs"
  by (induction gs arbitrary: revs) simp_all

lemma project_loop_prefix: "i < length revs \<Longrightarrow> project_loop revs gs ! i = revs ! i"
  by (induction gs arbitrary: revs) (simp_all add: nth_append)

lemma project_loop_step:
  "revs \<noteq> [] \<Longrightarrow> i < length gs \<Longrightarrow>
   project_loop revs gs ! (length revs + i) =
   project_loop revs gs ! (length revs + i - 1) * (1 + gs ! i)"
proof (induction gs arbitrary: revs i)
  case Nil
  then show ?case by simp
next
  case (Cons g gs)
  let ?revs' = "revs @ [last revs * (1 + g)]"
  show ?case
  proof (cases i)
    case 0
    have a: "project_loop ?revs' gs ! length revs = last revs * (1 + g)"
      by (simp add: project_loop_prefix)
    have b: "project_loop ?revs' gs ! (length revs - 1) = last revs"
      using Cons.prems(1) by (simp add: project_loop_prefix nth_append last_conv_nth)
    show ?thesis using 0 a b by simp
  next
    case (Suc k)
    have "k < length gs" using Cons.prems(2) Suc by simp
    from Cons.IH [of ?revs' k, OF _ this] show ?thesis using Suc by simp
  qed
qed

lemma project_revenue_length: "length (project_revenue self) = length (growth_rates self)"
  by (simp add: project_revenue_def project_loop_length)

lemma project_revenue_first:
  "growth_rates self \<noteq> [] \<Longrightarrow>
   project_revenue self ! 0 = current_revenue self * (1 + growth_rates self ! 0)"
proof -
  assume ne: "growth_rates self \<noteq> []"
  have "project_loop [current_revenue self] (growth_rates self) ! (length [current_revenue self] + 0) =
        project_loop [current_revenue self] (growth_rates self) ! (length [current_revenue self] + 0 - 1)
          * (1 + growth_rates self ! 0)"
    by (rule project_loop_step) (use ne in simp_all)
  then show ?thesis
    by (simp add: project_revenue_def project_loop_length project_loop_prefix ne Suc_leI)
qed

lemma project_revenue_next:
  "0 < i \<Longrightarrow> i < length (growth_rates self) \<Longrightarrow>
   project_revenue self ! i = project_revenue self ! (i - 1) * (1 + growth_rates self ! i)"
proof -
  assume pos: "0 < i" and lt: "i < length (growth_rates self)"
  have "project_loop [current_revenue self] (growth_rates self) ! (length [current_revenue self] + i) =
        project_loop [current_revenue self] (growth_rates self) ! (length [current_revenue self] + i - 1)
          * (1 + growth_rates self ! i)"
    by (rule project_loop_step) (use lt in simp_all)
  then show ?thesis
    using pos lt by (simp add: project_revenue_def project_loop_length)
qed

text \<open>
  C7. For a sequence of five growth rates the projected revenue series has exactly five
  entries, entry \<open>i\<close> being the previous entry (the current revenue for the first one,
  which is itself not part of the output) times \<open>1 + growth_rates[i]\<close>; EBIT, NOPAT and
  FCF have the same length and are, entry by entry, revenue times margin, EBIT times
  \<open>1 - tax_rate\<close> and NOPAT times the conversion rate.
\<close>

theorem projection_series:
  assumes "length (growth_rates self) = 5"
  shows "length (project_revenue self) = 5 \<and>
         project_revenue self ! 0 = current_revenue self * (1 + growth_rates self ! 0) \<and>
         (\<forall>i. 0 < i \<and> i < 5 \<longrightarrow>
            project_revenue self ! i = project_revenue self ! (i - 1) * (1 + growth_rates self ! i)) \<and>
         length (calculate_ebit self (project_revenue self)) = 5 \<and>
         length (calculate_nopat self (calculate_ebit self (project_revenue self))) = 5 \<and>
         length (calculate_fcf self (calculate_nopat self (calculate_ebit self (project_revenue self)))) = 5 \<and>
         (\<forall>i<5. calculate_ebit self (project_revenue self) ! i
                   = project_revenue self ! i * ebit_margin self \<and>
                 calculate_nopat self (calculate_ebit self (project_revenue self)) ! i
                   = calculate_ebit self (project_revenue self) ! i * (1 - tax_rate self) \<and>
                 calculate_fcf self (calculate_nopat self (calculate_ebit self (project_revenue self))) ! i
                   = calculate_nopat self (calculate_ebit self (project_revenue self)) ! i
                       * fcf_conversion self)"
proof -
  have ne: "growth_rates self \<noteq> []" using assms by auto
  have len: "length (project_revenue self) = 5"
    using assms by (simp add: project_revenue_length)
  have first: "project_revenue self ! 0 = current_revenue self * (1 + growth_rates self ! 0)"
    using ne by (rule project_revenue_first)
  have step: "\<forall>i. 0 < i \<and> i < 5 \<longrightarrow>
      project_revenue self ! i = project_revenue self ! (i - 1) * (1 + growth_rates self ! i)"
    using assms by (simp add: project_revenue_next)
  show ?thesis
    using len first step
    by (simp add: calculate_ebit_def calculate_nopat_def calculate_fcf_def)
qed

theorem projection_series_witness:
  "length (growth_rates scenario) = 5 \<and>
   length (project_revenue scenario) = 5 \<and>
   project_revenue scenario ! 0 = 115 \<and>
   project_revenue scenario ! 1 = project_revenue scenario ! 0 * (1 + 12 / 100) \<and>
   calculate_ebit scenario (project_revenue scenario) ! 0 = 23"
proof -
  have h: "length (growth_rates scenario) = 5"
    by (simp add: scenario_def)
  note t = projection_series [OF h]
  have a: "length (project_revenue scenario) = 5" using t by simp
  have b: "project_revenue scenario ! 0 = 115" using t by (simp add: scenario_def)
  from t have "\<forall>i. 0 < i \<and> i < 5 \<longrightarrow>
      project_revenue scenario ! i = project_revenue scenario ! (i - 1) * (1 + growth_rates scenario ! i)"
    by simp
  then have "project_revenue scenario ! 1 = project_revenue scenario ! (1 - 1) * (1 + growth_rates scenario ! 1)"
    by simp
  then have c: "project_revenue scenario ! 1 = project_revenue scenario ! 0 * (1 + 12 / 100)"
    by (simp add: scenario_def)
  from t have "\<forall>i<5. calculate_ebit scenario (project_revenue scenario) ! i
                   = project_revenue scenario ! i * ebit_margin scenario"
    by simp
  then have "calculate_ebit scenario (project_revenue scenario) ! 0
                   = project_revenue scenario ! 0 * ebit_margin scenario"
    by simp
  then have d: "calculate_ebit scenario (project_revenue scenario) ! 0 = 23"
    using b by (simp add: scenario_def)
  show ?thesis using h a b c d by simp
qed

section \<open>When the base valuation returns\<close>

lemma comprehension_ok:
  "(\<And>x. x \<in> set xs \<Longrightarrow> f x = Inr (g x)) \<Longrightarrow> comprehension f xs = Inr (map g xs)"
  by (induction xs) simp_all

lemma factors_length: "length (factors w) = 5"
  by (simp add: factors_def)

lemma factors_last: "last (factors w) = 1 / (1 + w) ^ 5"
  by (simp add: factors_def last_map)

lemma discount_factors_ok:
  "wacc self \<noteq> - 1 \<Longrightarrow> calculate_discount_factors self = Inr (factors (wacc self))"
  unfolding calculate_discount_factors_def factors_def
  by (rule comprehension_ok) (simp add: py_div_def)

lemma discount_factors_fail:
  "wacc self = - 1 \<Longrightarrow> calculate_discount_factors self = Inl ZeroDivisionError"
  by (simp add: calculate_discount_factors_def upt_conv_Cons py_div_def)

lemma projected_fcfs_length: "length (projected_fcfs self) = length (growth_rates self)"
  by (simp add: projected_fcfs_def calculate_fcf_def calculate_nopat_def calculate_ebit_def
      project_revenue_length)

lemma run_valuation_ok:
  assumes "growth_rates self \<noteq> []" "wacc self \<noteq> - 1" "wacc self \<noteq> terminal_growth self"
  shows "run_valuation self =
     Inr \<lparr>revenues = project_revenue self,
          ebits = calculate_ebit self (project_revenue self),
          nopats = calculate_nopat self (calculate_ebit self (project_revenue self)),
          fcfs = projected_fcfs self,
          discount_factors = factors (wacc self),
          pv_fcfs = map (\<lambda>(fcf, df). fcf * df) (zip (projected_fcfs self) (factors (wacc self))),
          terminal_value = last (projected_fcfs self) * (1 + terminal_growth self)
                             / (wacc self - terminal_growth self),
          pv_terminal_value = last (projected_fcfs self) * (1 + terminal_growth self)
                             / (wacc self - terminal_growth self) * (1 / (1 + wacc self) ^ 5),
          pv_forecast_period = py_sum (map (\<lambda>(fcf, df). fcf * df) (zip (projected_fcfs self) (factors (wacc self)))),
          enterprise_value = py_sum (map (\<lambda>(fcf, df). fcf * df) (zip (projected_fcfs self) (factors (wacc self))))
             + last (projected_fcfs self) * (1 + terminal_growth self)
                             / (wacc self - terminal_growth self) * (1 / (1 + wacc self) ^ 5)\<rparr>"
proof -
  have ne: "projected_fcfs self \<noteq> []"
    using assms(1) projected_fcfs_length [of self] by auto
  have fne: "factors (wacc self) \<noteq> []"
    using factors_length [of "wacc self"] by auto
  show ?thesis
    using ne fne assms(3)
    by (simp add: run_valuation_def discount_factors_ok [OF assms(2)] Let_def py_last_def
        calculate_terminal_value_def py_div_def calculate_pv_terminal_value_def
        calculate_pv_fcf_def factors_last projected_fcfs_def [symmetric])
qed

lemma run_valuation_fails:
  "(\<exists>e. run_valuation self = Inl e) \<longleftrightarrow>
     growth_rates self = [] \<or> wacc self = - 1 \<or> wacc self = terminal_growth self"
proof (cases "growth_rates self \<noteq> [] \<and> wacc self \<noteq> - 1 \<and> wacc self \<noteq> terminal_growth self")
  case True
  then show ?thesis using run_valuation_ok [of self] by simp
next
  case False
  show ?thesis
  proof (cases "wacc self = - 1")
    case True
    then show ?thesis by (simp add: run_valuation_def discount_factors_fail Let_def)
  next
    case w: False
    have fne: "factors (wacc self) \<noteq> []"
      using factors_length [of "wacc self"] by auto
    show ?thesis
    proof (cases "growth_rates self = []")
      case True
      then have "projected_fcfs self = []" using projected_fcfs_length [of self] by simp
      then show ?thesis using True
        by (simp add: run_valuation_def discount_factors_ok [OF w] Let_def py_last_def
            projected_fcfs_def)
    next
      case g: False
      then have ne: "projected_fcfs self \<noteq> []" using projected_fcfs_length [of self] by auto
      from False w g have "wacc self = terminal_growth self" by simp
      then show ?thesis using ne
        by (simp add: run_valuation_def discount_factors_ok [OF w] Let_def py_last_def
            calculate_terminal_value_def py_div_def projected_fcfs_def)
    qed
  qed
qed

section \<open>Terminal value\<close>

text \<open>
  C1, as the code has it. The terminal-value computation fails, with ZeroDivisionError,
  exactly when the discount rate equals the terminal growth rate. For every other pair,
  the rate above the growth rate or below it, it returns
  \<open>final_fcf * (1 + terminal_growth) / (rate - terminal_growth)\<close>: nothing checks
  the order of the two rates, so a rate below the growth rate gives the sign-reversed
  value and no error.
\<close>

theorem terminal_value_behaviour:
  "(wacc self = terminal_growth self \<longrightarrow>
      calculate_terminal_value self final_fcf = Inl ZeroDivisionError) \<and>
   (wacc self \<noteq> terminal_growth self \<longrightarrow>
      calculate_terminal_value self final_fcf =
        Inr (final_fcf * (1 + terminal_growth self) / (wacc self - terminal_growth self)))"
  by (simp add: calculate_terminal_value_def py_div_def)

theorem terminal_value_behaviour_witness:
  "wacc (scenario\<lparr>wacc := 3 / 100\<rparr>) = terminal_growth (scenario\<lparr>wacc := 3 / 100\<rparr>) \<and>
   calculate_terminal_value (scenario\<lparr>wacc := 3 / 100\<rparr>) 100 = Inl ZeroDivisionError \<and>
   wacc scenario \<noteq> terminal_growth scenario \<and>
   calculate_terminal_value scenario 100 = Inr (10300 / 7)"
proof -
  have h1: "wacc (scenario\<lparr>wacc := 3 / 100\<rparr>) = terminal_growth (scenario\<lparr>wacc := 3 / 100\<rparr>)"
    by (simp add: scenario_def)
  have h2: "wacc scenario \<noteq> terminal_growth scenario"
    by (simp add: scenario_def)
  have "calculate_terminal_value (scenario\<lparr>wacc := 3 / 100\<rparr>) 100 = Inl ZeroDivisionError"
    using terminal_value_behaviour [of "scenario\<lparr>wacc := 3 / 100\<rparr>" 100] h1 by simp
  moreover have "calculate_terminal_value scenario 100 =
      Inr (100 * (1 + terminal_growth scenario) / (wacc scenario - terminal_growth scenario))"
    using terminal_value_behaviour [of scenario 100] h2 by simp
  then have "calculate_terminal_value scenario 100 = Inr (10300 / 7)"
    by (simp add: scenario_def)
  ultimately show ?thesis using h1 h2 by simp
qed

text \<open>
  The claim as stated asks for a failure whenever the rate is at most the growth rate.
  With a rate of 3 percent and a growth rate of 5 percent a final cash flow of 100
  gives the value -5250.
\<close>

theorem terminal_value_counterexample:
  "wacc inverted_case \<le> terminal_growth inverted_case \<and>
   calculate_terminal_value inverted_case 100 = Inr (- 5250)"
  by (simp add: inverted_case_def calculate_terminal_value_def py_div_def)

section \<open>Aggregation\<close>

lemma run_valuation_flat_case: "run_valuation flat_case = Inr flat_result"
  by code_simp

lemma run_valuation_seven_years: "run_valuation seven_years = Inr seven_years_result"
  by code_simp

lemma foldl_add_sum_list: "foldl (+) a xs = a + sum_list (xs :: real list)"
  by (induction xs arbitrary: a) simp_all

lemma py_sum_sum_list: "py_sum xs = sum_list xs"
  by (simp add: py_sum_def foldl_add_sum_list)

text \<open>
  C2. For every assumptions record (five growth rates) with \<open>wacc > terminal_growth\<close>,
  the result of the base valuation has
  \<open>enterprise_value = pv_forecast_period + pv_terminal_value\<close> and
  \<open>pv_forecast_period = sum(pv_fcfs)\<close>, and \<open>pv_fcfs\<close> is the product, year by year,
  of the five cash flows and the five discount factors. There is such a result unless
  \<open>wacc = -1\<close>, where the first discount factor divides by zero.
\<close>

theorem run_valuation_aggregation:
  assumes "terminal_growth self < wacc self" and "length (growth_rates self) = 5"
  shows "(wacc self \<noteq> - 1 \<longrightarrow> (\<exists>r. run_valuation self = Inr r)) \<and>
         (\<forall>r. run_valuation self = Inr r \<longrightarrow>
            enterprise_value r = pv_forecast_period r + pv_terminal_value r \<and>
            pv_forecast_period r = sum_list (pv_fcfs r) \<and>
            length (fcfs r) = 5 \<and> length (discount_factors r) = 5 \<and> length (pv_fcfs r) = 5 \<and>
            (\<forall>i<5. pv_fcfs r ! i = fcfs r ! i * discount_factors r ! i))"
proof (cases "wacc self = - 1")
  case True
  then have "\<exists>e. run_valuation self = Inl e" by (simp add: run_valuation_fails)
  then show ?thesis using True by auto
next
  case False
  have ne: "growth_rates self \<noteq> []" using assms(2) by auto
  have neq: "wacc self \<noteq> terminal_growth self" using assms(1) by simp
  note ok = run_valuation_ok [OF ne False neq]
  have len: "length (projected_fcfs self) = 5"
    using assms(2) by (simp add: projected_fcfs_length)
  show ?thesis
    by (simp add: ok py_sum_sum_list len factors_length)
qed

theorem run_valuation_aggregation_witness:
  "terminal_growth flat_case < wacc flat_case \<and> length (growth_rates flat_case) = 5 \<and>
   wacc flat_case \<noteq> - 1 \<and> run_valuation flat_case = Inr flat_result \<and>
   enterprise_value flat_result = pv_forecast_period flat_result + pv_terminal_value flat_result \<and>
   pv_forecast_period flat_result = sum_list (pv_fcfs flat_result) \<and>
   pv_fcfs flat_result ! 4 = fcfs flat_result ! 4 * discount_factors flat_result ! 4"
proof -
  have h1: "terminal_growth flat_case < wacc flat_case" by (simp add: flat_case_def)
  have h2: "length (growth_rates flat_case) = 5" by (simp add: flat_case_def)
  have h3: "wacc flat_case \<noteq> - 1" by (simp add: flat_case_def)
  note t = run_valuation_aggregation [OF h1 h2]
  from t have "\<forall>r. run_valuation flat_case = Inr r \<longrightarrow>
            enterprise_value r = pv_forecast_period r + pv_terminal_value r \<and>
            pv_forecast_period r = sum_list (pv_fcfs r) \<and>
            length (fcfs r) = 5 \<and> length (discount_factors r) = 5 \<and> length (pv_fcfs r) = 5 \<and>
            (\<forall>i<5. pv_fcfs r ! i = fcfs r ! i * discount_factors r ! i)"
    by (rule conjunct2)
  then have "enterprise_value flat_result = pv_forecast_period flat_result + pv_terminal_value flat_result \<and>
            pv_forecast_period flat_result = sum_list (pv_fcfs flat_result) \<and>
            length (fcfs flat_result) = 5 \<and> length (discount_factors flat_result) = 5 \<and>
            length (pv_fcfs flat_result) = 5 \<and>
            (\<forall>i<5. pv_fcfs flat_result ! i = fcfs flat_result ! i * discount_factors flat_result ! i)"
    using run_valuation_flat_case by blast
  then show ?thesis using h1 h2 h3 run_valuation_flat_case by simp
qed

section \<open>Growth-rate sequences of any length\<close>

text \<open>
  C10, as the code has it. Nothing checks the number of growth rates. For every
  non-empty sequence of \<open>k\<close> growth rates (and a discount rate that is neither -1 nor the
  terminal growth rate, the two divisions by zero) the base valuation returns: revenue,
  EBIT, NOPAT and FCF of length \<open>k\<close>, five discount factors, \<open>min k 5\<close> present values
  (the zip stops at the shorter series), a terminal value built from the last cash flow,
  that of year \<open>k\<close>, and discounted by the factor of year 5.
\<close>

theorem run_valuation_any_arity:
  assumes "growth_rates self \<noteq> []" and "wacc self \<noteq> - 1"
    and "wacc self \<noteq> terminal_growth self"
  shows "\<exists>r. run_valuation self = Inr r \<and>
           length (revenues r) = length (growth_rates self) \<and>
           length (ebits r) = length (growth_rates self) \<and>
           length (nopats r) = length (growth_rates self) \<and>
           length (fcfs r) = length (growth_rates self) \<and>
           length (discount_factors r) = 5 \<and>
           length (pv_fcfs r) = min (length (growth_rates self)) 5 \<and>
           (\<forall>i<min (length (growth_rates self)) 5.
              pv_fcfs r ! i = fcfs r ! i * discount_factors r ! i) \<and>
           terminal_value r =
             fcfs r ! (length (growth_rates self) - 1) * (1 + terminal_growth self)
               / (wacc self - terminal_growth self) \<and>
           discount_factors r ! 4 = 1 / (1 + wacc self) ^ 5 \<and>
           pv_terminal_value r = terminal_value r * discount_factors r ! 4"
proof -
  note ok = run_valuation_ok [OF assms]
  have len: "length (projected_fcfs self) = length (growth_rates self)"
    by (rule projected_fcfs_length)
  have ne: "projected_fcfs self \<noteq> []" using assms(1) len by auto
  have l: "last (projected_fcfs self) = projected_fcfs self ! (length (growth_rates self) - 1)"
    using ne len by (simp add: last_conv_nth)
  have f4: "factors (wacc self) ! 4 = 1 / (1 + wacc self) ^ 5"
    by (simp add: factors_def)
  show ?thesis
    by (simp add: ok len l f4 factors_length project_revenue_length
        calculate_ebit_def calculate_nopat_def)
qed

theorem run_valuation_any_arity_witness:
  "growth_rates seven_years \<noteq> [] \<and> wacc seven_years \<noteq> - 1 \<and>
   wacc seven_years \<noteq> terminal_growth seven_years \<and>
   run_valuation seven_years = Inr seven_years_result \<and>
   length (fcfs seven_years_result) = 7 \<and> length (discount_factors seven_years_result) = 5 \<and>
   length (pv_fcfs seven_years_result) = 5 \<and>
   terminal_value seven_years_result =
     fcfs seven_years_result ! (7 - 1) * (1 + terminal_growth seven_years)
       / (wacc seven_years - terminal_growth seven_years) \<and>
   pv_terminal_value seven_years_result =
     terminal_value seven_years_result * discount_factors seven_years_result ! 4"
proof -
  have h1: "growth_rates seven_years \<noteq> []" by (simp add: seven_years_def)
  have h2: "wacc seven_years \<noteq> - 1" by (simp add: seven_years_def)
  have h3: "wacc seven_years \<noteq> terminal_growth seven_years" by (simp add: seven_years_def)
  from run_valuation_any_arity [OF h1 h2 h3] obtain r where
    r: "run_valuation seven_years = Inr r"
    and a: "length (fcfs r) = length (growth_rates seven_years)"
    and b: "length (discount_factors r) = 5"
    and c: "length (pv_fcfs r) = min (length (growth_rates seven_years)) 5"
    and d: "terminal_value r =
             fcfs r ! (length (growth_rates seven_years) - 1) * (1 + terminal_growth seven_years)
               / (wacc seven_years - terminal_growth seven_years)"
    and e: "pv_terminal_value r = terminal_value r * discount_factors r ! 4"
    by blast
  have eq: "r = seven_years_result" using r run_valuation_seven_years by simp
  have k: "length (growth_rates seven_years) = 7" by (simp add: seven_years_def)
  show ?thesis
    using h1 h2 h3 run_valuation_seven_years a b c d e unfolding eq k
    by simp
qed

text \<open>
  The claim as stated has the valuation return for a sequence of any length. For the
  empty one \<^verbatim>\<open>fcfs[-1]\<close> raises IndexError.
\<close>

theorem run_valuation_empty_counterexample:
  "length (growth_rates no_years) \<noteq> 5 \<and> run_valuation no_years = Inl IndexError"
  by code_simp

section \<open>The two implementations\<close>

lemma dashboard_revenue_loop_eq: "dashboard_revenue_loop revs gs = project_loop revs gs"
  by (induction gs arbitrary: revs) simp_all

text \<open>
  C9. On the same assumption values the inline computation of the dashboard script and
  \<^verbatim>\<open>DCFModel.run_valuation\<close> give the same outcome: the same error, or results equal
  in every field (revenue, EBIT, NOPAT, FCF, discount factors, present values, terminal
  value and its present value, forecast-period value, enterprise value).
\<close>

theorem dashboard_agrees_with_model:
  "dashboard_calculations (current_revenue self) (growth_rates self) (ebit_margin self)
     (tax_rate self) (wacc self) (terminal_growth self) (fcf_conversion self)
   = run_valuation self"
  unfolding dashboard_calculations_def run_valuation_def dashboard_revenue_loop_eq
    project_revenue_def calculate_ebit_def calculate_nopat_def calculate_fcf_def
    calculate_discount_factors_def calculate_pv_fcf_def calculate_terminal_value_def
    calculate_pv_terminal_value_def Let_def
  by (rule refl)

section \<open>WACC sensitivity: the value\<close>

lemma rebuilt_model:
  "\<lparr>current_revenue = current_revenue self, growth_rates = growth_rates self,
    ebit_margin = ebit_margin self, tax_rate = tax_rate self, wacc = w,
    terminal_growth = terminal_growth self, fcf_conversion = fcf_conversion self\<rparr>
   = self\<lparr>wacc := w\<rparr>"
  by (cases self) simp

lemma wacc_sensitivity_unfold:
  "calculate_wacc_sensitivity self =
     (case run_valuation self of
        Inl e \<Rightarrow> Inl e
      | Inr r \<Rightarrow>
          (case run_valuation (self\<lparr>wacc := wacc self + 1 / 100\<rparr>) of
             Inl e \<Rightarrow> Inl e
           | Inr rp \<Rightarrow>
               (case run_valuation (self\<lparr>wacc := wacc self - 1 / 100\<rparr>) of
                  Inl e \<Rightarrow> Inl e
                | Inr rm \<Rightarrow>
                    (if enterprise_value r = 0 then Inl ZeroDivisionError
                     else Inr ((enterprise_value rm - enterprise_value rp) / (2 * enterprise_value r),
                               enterprise_value r)))))"
  unfolding calculate_wacc_sensitivity_def rebuilt_model Let_def py_div_def
  by (simp split: sum.splits)

text \<open>
  C5. Whenever the WACC-sensitivity operation returns, it returns the pair of the
  sensitivity and the base enterprise value, where the sensitivity is the enterprise
  value at \<open>wacc - 0.01\<close> minus the one at \<open>wacc + 0.01\<close>, over twice the base one, and
  each of the three is a full base valuation of the model with only \<open>wacc\<close> changed.
\<close>

theorem wacc_sensitivity_value:
  assumes "calculate_wacc_sensitivity self = Inr (s, b)"
  shows "\<exists>r rp rm.
           run_valuation self = Inr r \<and>
           run_valuation (self\<lparr>wacc := wacc self + 1 / 100\<rparr>) = Inr rp \<and>
           run_valuation (self\<lparr>wacc := wacc self - 1 / 100\<rparr>) = Inr rm \<and>
           b = enterprise_value r \<and>
           s = (enterprise_value rm - enterprise_value rp) / (2 * enterprise_value r)"
  using assms unfolding wacc_sensitivity_unfold
  by (auto split: sum.splits if_splits)

lemma wacc_sensitivity_flat_case: "calculate_wacc_sensitivity flat_case = Inr (100 / 9999, 100)"
  by code_simp

theorem wacc_sensitivity_value_witness:
  "calculate_wacc_sensitivity flat_case = Inr (100 / 9999, 100) \<and>
   100 = enterprise_value (projr (run_valuation flat_case)) \<and>
   100 / 9999 =
     (enterprise_value (projr (run_valuation (flat_case\<lparr>wacc := wacc flat_case - 1 / 100\<rparr>)))
      - enterprise_value (projr (run_valuation (flat_case\<lparr>wacc := wacc flat_case + 1 / 100\<rparr>))))
     / (2 * enterprise_value (projr (run_valuation flat_case)))"
proof -
  from wacc_sensitivity_value [OF wacc_sensitivity_flat_case] obtain r rp rm where
    "run_valuation flat_case = Inr r"
    "run_valuation (flat_case\<lparr>wacc := wacc flat_case + 1 / 100\<rparr>) = Inr rp"
    "run_valuation (flat_case\<lparr>wacc := wacc flat_case - 1 / 100\<rparr>) = Inr rm"
    "100 = enterprise_value r"
    "100 / 9999 = (enterprise_value rm - enterprise_value rp) / (2 * enterprise_value r)"
    by blast
  then show ?thesis using wacc_sensitivity_flat_case by simp
qed

section \<open>WACC sensitivity: the failures\<close>

lemma wacc_sensitivity_exact_instance:
  "calculate_wacc_sensitivity self =
     calculate_wacc_sensitivity_rounded (\<lambda>x. x + 1 / 100) (\<lambda>x. x - 1 / 100) self"
  unfolding calculate_wacc_sensitivity_def calculate_wacc_sensitivity_rounded_def
  by (rule refl)

lemma wacc_sensitivity_rounded_unfold:
  "calculate_wacc_sensitivity_rounded plus01 minus01 self =
     (case run_valuation self of
        Inl e \<Rightarrow> Inl e
      | Inr r \<Rightarrow>
          (case run_valuation (self\<lparr>wacc := plus01 (wacc self)\<rparr>) of
             Inl e \<Rightarrow> Inl e
           | Inr rp \<Rightarrow>
               (case run_valuation (self\<lparr>wacc := minus01 (wacc self)\<rparr>) of
                  Inl e \<Rightarrow> Inl e
                | Inr rm \<Rightarrow>
                    (if enterprise_value r = 0 then Inl ZeroDivisionError
                     else Inr ((enterprise_value rm - enterprise_value rp) / (2 * enterprise_value r),
                               enterprise_value r)))))"
  unfolding calculate_wacc_sensitivity_rounded_def rebuilt_model Let_def py_div_def
  by (simp split: sum.splits)

text \<open>
  C6, as the code has it. The operation compares nothing with the terminal growth rate.
  It fails when one of the three rates it values, \<open>wacc\<close> and the floats it computes for
  \<open>wacc + 0.01\<close> and \<open>wacc - 0.01\<close>, equals the terminal growth rate: that valuation
  divides by zero. A computed \<open>wacc - 0.01\<close> strictly below the growth rate is no
  failure: with at least one growth rate, none of the three rates equal to the growth
  rate or to -1, and a base enterprise value other than 0, the operation returns a pair
  of numbers. Both hold whatever the two float operations return.
\<close>

theorem wacc_sensitivity_failure:
  "(wacc self = terminal_growth self \<or> plus01 (wacc self) = terminal_growth self \<or>
    minus01 (wacc self) = terminal_growth self \<longrightarrow>
      (\<exists>e. calculate_wacc_sensitivity_rounded plus01 minus01 self = Inl e)) \<and>
   (growth_rates self \<noteq> [] \<and>
    wacc self \<noteq> - 1 \<and> plus01 (wacc self) \<noteq> - 1 \<and> minus01 (wacc self) \<noteq> - 1 \<and>
    wacc self \<noteq> terminal_growth self \<and> plus01 (wacc self) \<noteq> terminal_growth self \<and>
    minus01 (wacc self) \<noteq> terminal_growth self \<and>
    (\<forall>r. run_valuation self = Inr r \<longrightarrow> enterprise_value r \<noteq> 0) \<longrightarrow>
      (\<exists>s b. calculate_wacc_sensitivity_rounded plus01 minus01 self = Inr (s, b)))"
proof -
  have base: "(\<exists>e. run_valuation self = Inl e) \<longleftrightarrow>
      growth_rates self = [] \<or> wacc self = - 1 \<or> wacc self = terminal_growth self"
    by (rule run_valuation_fails)
  have plus: "(\<exists>e. run_valuation (self\<lparr>wacc := plus01 (wacc self)\<rparr>) = Inl e) \<longleftrightarrow>
      growth_rates self = [] \<or> plus01 (wacc self) = - 1 \<or>
      plus01 (wacc self) = terminal_growth self"
    using run_valuation_fails [of "self\<lparr>wacc := plus01 (wacc self)\<rparr>"] by simp
  have minus: "(\<exists>e. run_valuation (self\<lparr>wacc := minus01 (wacc self)\<rparr>) = Inl e) \<longleftrightarrow>
      growth_rates self = [] \<or> minus01 (wacc self) = - 1 \<or>
      minus01 (wacc self) = terminal_growth self"
    using run_valuation_fails [of "self\<lparr>wacc := minus01 (wacc self)\<rparr>"] by simp
  have fails: "(\<exists>e. calculate_wacc_sensitivity_rounded plus01 minus01 self = Inl e) \<longleftrightarrow>
      (\<exists>e. run_valuation self = Inl e) \<or>
      (\<exists>e. run_valuation (self\<lparr>wacc := plus01 (wacc self)\<rparr>) = Inl e) \<or>
      (\<exists>e. run_valuation (self\<lparr>wacc := minus01 (wacc self)\<rparr>) = Inl e) \<or>
      (\<exists>r. run_valuation self = Inr r \<and> enterprise_value r = 0)"
    unfolding wacc_sensitivity_rounded_unfold
    by (auto split: sum.splits if_splits)
  have iff: "(\<exists>e. calculate_wacc_sensitivity_rounded plus01 minus01 self = Inl e) \<longleftrightarrow>
      growth_rates self = [] \<or>
      wacc self = - 1 \<or> plus01 (wacc self) = - 1 \<or> minus01 (wacc self) = - 1 \<or>
      wacc self = terminal_growth self \<or> plus01 (wacc self) = terminal_growth self \<or>
      minus01 (wacc self) = terminal_growth self \<or>
      (\<exists>r. run_valuation self = Inr r \<and> enterprise_value r = 0)"
    unfolding fails base plus minus by blast
  have returns: "\<exists>s b. calculate_wacc_sensitivity_rounded plus01 minus01 self = Inr (s, b)"
    if "\<not> (\<exists>e. calculate_wacc_sensitivity_rounded plus01 minus01 self = Inl e)"
    using that by (cases "calculate_wacc_sensitivity_rounded plus01 minus01 self") auto
  show ?thesis using iff returns by blast
qed

lemma base_value_six_five_case:
  "run_valuation six_five_case = Inr r \<Longrightarrow> enterprise_value r = 12603306090 / 7890481"
proof -
  assume "run_valuation six_five_case = Inr r"
  moreover have "map_sum id enterprise_value (run_valuation six_five_case)
                   = Inr (12603306090 / 7890481)"
    by code_simp
  ultimately show ?thesis by simp
qed

theorem wacc_sensitivity_failure_witness:
  "exact_minus01 (wacc tight_case) = terminal_growth tight_case \<and>
   isl (calculate_wacc_sensitivity_rounded exact_plus01 exact_minus01 tight_case) \<and>
   growth_rates six_five_case \<noteq> [] \<and>
   wacc six_five_case \<noteq> - 1 \<and> exact_plus01 (wacc six_five_case) \<noteq> - 1 \<and>
   rounded_minus01 (wacc six_five_case) \<noteq> - 1 \<and>
   wacc six_five_case \<noteq> terminal_growth six_five_case \<and>
   exact_plus01 (wacc six_five_case) \<noteq> terminal_growth six_five_case \<and>
   rounded_minus01 (wacc six_five_case) < terminal_growth six_five_case \<and>
   \<not> isl (calculate_wacc_sensitivity_rounded exact_plus01 rounded_minus01 six_five_case)"
proof -
  have a: "exact_minus01 (wacc tight_case) = terminal_growth tight_case"
    by (simp add: tight_case_def exact_minus01_def)
  from wacc_sensitivity_failure [of tight_case exact_plus01 exact_minus01] a
  have "\<exists>e. calculate_wacc_sensitivity_rounded exact_plus01 exact_minus01 tight_case = Inl e"
    by blast
  then have fail: "isl (calculate_wacc_sensitivity_rounded exact_plus01 exact_minus01 tight_case)"
    by auto
  have g: "growth_rates six_five_case \<noteq> []" by (simp add: six_five_case_def)
  have w: "wacc six_five_case \<noteq> - 1" "exact_plus01 (wacc six_five_case) \<noteq> - 1"
    "rounded_minus01 (wacc six_five_case) \<noteq> - 1"
    "wacc six_five_case \<noteq> terminal_growth six_five_case"
    "exact_plus01 (wacc six_five_case) \<noteq> terminal_growth six_five_case"
    by (simp_all add: six_five_case_def exact_plus01_def rounded_minus01_def)
  have below: "rounded_minus01 (wacc six_five_case) < terminal_growth six_five_case"
    by (simp add: six_five_case_def rounded_minus01_def)
  then have ne: "rounded_minus01 (wacc six_five_case) \<noteq> terminal_growth six_five_case"
    by simp
  have ev: "\<forall>r. run_valuation six_five_case = Inr r \<longrightarrow> enterprise_value r \<noteq> 0"
    using base_value_six_five_case by auto
  from wacc_sensitivity_failure [of six_five_case exact_plus01 rounded_minus01] g w ne ev
  have "\<exists>s b. calculate_wacc_sensitivity_rounded exact_plus01 rounded_minus01 six_five_case
                = Inr (s, b)"
    by blast
  then have ok: "\<not> isl (calculate_wacc_sensitivity_rounded exact_plus01 rounded_minus01
                          six_five_case)"
    by auto
  show ?thesis using a fail g w below ok by blast
qed


text \<open>
  The claim as stated asks for a failure whenever \<open>wacc - 0.01\<close> is at most the terminal
  growth rate. With \<open>wacc\<close> at 3 percent and the growth rate at 5 percent, where no
  rounding brings a rate near the growth rate, the operation returns a pair of numbers.
\<close>

theorem wacc_sensitivity_counterexample:
  "wacc inverted_case - 1 / 100 \<le> terminal_growth inverted_case \<and>
   calculate_wacc_sensitivity inverted_case =
     Inr (- (35883711000056575907 / 54113580833920320960), - (90582130500 / 112550881))"
  by code_simp

section \<open>The sweep, cell by cell\<close>

lemma np_add_NonFinite [simp]: "np_add x NonFinite = NonFinite"
  by (cases x) simp_all

lemma np_mul_NonFinite [simp]: "np_mul x NonFinite = NonFinite"
  by (cases x) simp_all

lemma foldl_np_add_Fin: "foldl np_add (Fin a) (map Fin xs) = Fin (foldl (+) a xs)"
  by (induction xs arbitrary: a) simp_all

lemma np_sum_Fin: "np_sum (map Fin xs) = Fin (py_sum xs)"
  by (simp add: np_sum_def py_sum_def foldl_np_add_Fin)

lemma temp_factors_Fin:
  "w \<noteq> - 1 \<Longrightarrow> map (\<lambda>year. np_div 1 ((1 + w) ^ year)) [1..<6] = map Fin (factors w)"
  by (simp add: factors_def np_div_def)

lemma temp_pvs_Fin:
  "map (\<lambda>(fcf, df). np_mul (Fin fcf) df) (zip fs (map Fin dfs))
     = map Fin (map (\<lambda>(fcf, df). fcf * df) (zip fs dfs))"
  by (simp add: zip_map2 case_prod_unfold)

lemma sweep_cell_empty: "sweep_cell [] w tg = Inl IndexError"
  by (simp add: sweep_cell_def py_last_def)

lemma sweep_cell_unfold:
  assumes "fs \<noteq> []"
  shows "sweep_cell fs w tg =
     Inr (np_add
            (np_sum (map (\<lambda>(fcf, df). np_mul (Fin fcf) df)
                       (zip fs (map (\<lambda>year. np_div 1 ((1 + w) ^ year)) [1..<6]))))
            (np_mul (np_div (last fs * (1 + tg)) (w - tg)) (np_div 1 ((1 + w) ^ 5))))"
  using assms by (simp add: sweep_cell_def Let_def py_last_def last_map)

lemma sweep_cell_value:
  assumes "fs \<noteq> []"
  shows "sweep_cell fs w tg = Inr (grid_value fs w tg)"
proof (cases "w = - 1")
  case True
  then show ?thesis
    by (simp add: sweep_cell_unfold [OF assms] np_div_def grid_value_def)
next
  case False
  have "sweep_cell fs w tg =
      Inr (np_add (Fin (py_sum (map (\<lambda>(fcf, df). fcf * df) (zip fs (factors w)))))
             (np_mul (np_div (last fs * (1 + tg)) (w - tg)) (np_div 1 ((1 + w) ^ 5))))"
    unfolding sweep_cell_unfold [OF assms] temp_factors_Fin [OF False] temp_pvs_Fin np_sum_Fin ..
  then show ?thesis using False
    by (simp add: np_div_def grid_value_def)
qed

lemma inner_loop_row:
  assumes "fs \<noteq> []"
  shows "i < length m \<Longrightarrow> j + length ws \<le> length (m ! i) \<Longrightarrow>
         inner_loop fs i tg j ws m =
           Inr (m[i := take j (m ! i) @ map (\<lambda>w. grid_value fs w tg) ws
                          @ drop (j + length ws) (m ! i)])"
proof (induction ws arbitrary: j m)
  case Nil
  then show ?case by simp
next
  case (Cons w ws)
  let ?v = "grid_value fs w tg"
  let ?m' = "m[i := (m ! i)[j := ?v]]"
  have j: "j < length (m ! i)" using Cons.prems(2) by simp
  have i': "i < length ?m'" using Cons.prems(1) by simp
  have row: "?m' ! i = (m ! i)[j := ?v]" using Cons.prems(1) by simp
  have len: "Suc j + length ws \<le> length (?m' ! i)" using Cons.prems(2) row by simp
  have t: "take (Suc j) ((m ! i)[j := ?v]) = take j (m ! i) @ [?v]"
    using j by (simp add: take_Suc_conv_app_nth)
  have d: "drop (Suc j + length ws) ((m ! i)[j := ?v]) = drop (Suc j + length ws) (m ! i)"
    by simp
  show ?case
    using Cons.IH [OF i' len]
    by (simp add: sweep_cell_value [OF assms] row t d)
qed

lemma inner_loop_full:
  assumes "fs \<noteq> []" and "i < length m" and "length (m ! i) = length ws"
  shows "inner_loop fs i tg 0 ws m = Inr (m[i := map (\<lambda>w. grid_value fs w tg) ws])"
  using inner_loop_row [OF assms(1), of i m 0 ws tg] assms(2,3) by simp

lemma outer_loop_rows:
  assumes "fs \<noteq> []"
  shows "i + length tgs \<le> length m \<Longrightarrow> \<forall>row\<in>set m. length row = length ws \<Longrightarrow>
         outer_loop fs ws i tgs m =
           Inr (take i m @ map (\<lambda>tg. map (\<lambda>w. grid_value fs w tg) ws) tgs
                  @ drop (i + length tgs) m)"
proof (induction tgs arbitrary: i m)
  case Nil
  then show ?case by simp
next
  case (Cons tg tgs)
  let ?row = "map (\<lambda>w. grid_value fs w tg) ws"
  let ?m' = "m[i := ?row]"
  have i: "i < length m" using Cons.prems(1) by simp
  have rowlen: "length (m ! i) = length ws" using Cons.prems(2) i by simp
  have inner: "inner_loop fs i tg 0 ws m = Inr ?m'"
    by (rule inner_loop_full [OF assms i rowlen])
  have len': "Suc i + length tgs \<le> length ?m'" using Cons.prems(1) by simp
  have rows': "\<forall>row\<in>set ?m'. length row = length ws"
    using Cons.prems(2) by (auto dest!: set_update_subset_insert [THEN subsetD])
  have t: "take (Suc i) ?m' = take i m @ [?row]"
    using i by (simp add: take_Suc_conv_app_nth)
  have d: "drop (Suc i + length tgs) ?m' = drop (Suc i + length tgs) m"
    by simp
  show ?case
    using Cons.IH [OF len' rows']
    by (simp add: inner t d)
qed

lemma sensitivity_analysis_grid:
  assumes "growth_rates self \<noteq> []"
  shows "sensitivity_analysis self wacc_range tg_range =
           Inr (map (\<lambda>tg. map (\<lambda>w. grid_value (projected_fcfs self) w tg) wacc_range) tg_range)"
proof -
  have ne: "projected_fcfs self \<noteq> []"
    using assms projected_fcfs_length [of self] by auto
  have "outer_loop (projected_fcfs self) wacc_range 0 tg_range
          (replicate (length tg_range) (replicate (length wacc_range) (Fin 0)))
        = Inr (map (\<lambda>tg. map (\<lambda>w. grid_value (projected_fcfs self) w tg) wacc_range) tg_range)"
    using outer_loop_rows [OF ne, of 0 tg_range
        "replicate (length tg_range) (replicate (length wacc_range) (Fin 0))" wacc_range]
    by simp
  then show ?thesis
    by (simp add: sensitivity_analysis_def Let_def projected_fcfs_def)
qed

lemma grid_value_run_valuation:
  assumes "run_valuation self = Inr r"
  shows "grid_value (fcfs r) (wacc self) (terminal_growth self) = Fin (enterprise_value r)"
proof -
  from assms have "\<not> (\<exists>e. run_valuation self = Inl e)" by simp
  then have c: "growth_rates self \<noteq> []" "wacc self \<noteq> - 1" "wacc self \<noteq> terminal_growth self"
    by (simp_all add: run_valuation_fails)
  from run_valuation_ok [OF c] assms show ?thesis
    using c by (auto simp add: grid_value_def)
qed

lemma run_valuation_fcfs:
  assumes "run_valuation self = Inr r"
  shows "fcfs r = projected_fcfs self"
proof -
  from assms have "\<not> (\<exists>e. run_valuation self = Inl e)" by simp
  then have c: "growth_rates self \<noteq> []" "wacc self \<noteq> - 1" "wacc self \<noteq> terminal_growth self"
    by (simp_all add: run_valuation_fails)
  from run_valuation_ok [OF c] assms show ?thesis by auto
qed


lemma projected_fcfs_rates:
  "projected_fcfs (self\<lparr>wacc := w, terminal_growth := tg\<rparr>) = projected_fcfs self"
  by (simp add: projected_fcfs_def calculate_fcf_def calculate_nopat_def calculate_ebit_def
      project_revenue_def)

lemma sweep_flat_case:
  "sensitivity_analysis flat_case example_rates example_growths = Inr example_matrix"
  by code_simp

text \<open>
  C3. When the base valuation returns and its \<open>(wacc, terminal_growth)\<close> is the pair of
  column \<open>j\<close> and row \<open>i\<close> of the grid, the sweep returns a matrix whose cell
  \<open>[i][j]\<close> is the base enterprise value. The matrix has one row per growth rate and one
  column per rate, and the cell \<open>[i'][j']\<close> is the loop body run on the cash-flow series
  of the base valuation with rate \<open>wacc_range[j']\<close> and growth \<open>tg_range[i']\<close>.
\<close>

theorem sweep_matches_base:
  assumes "run_valuation self = Inr r"
    and "i < length tg_range" and "j < length wacc_range"
    and "tg_range ! i = terminal_growth self" and "wacc_range ! j = wacc self"
  shows "\<exists>m. sensitivity_analysis self wacc_range tg_range = Inr m \<and>
             length m = length tg_range \<and>
             m ! i ! j = Fin (enterprise_value r) \<and>
             (\<forall>i'<length tg_range.
                length (m ! i') = length wacc_range \<and>
                (\<forall>j'<length wacc_range.
                   sweep_cell (fcfs r) (wacc_range ! j') (tg_range ! i') = Inr (m ! i' ! j')))"
proof -
  from assms(1) have "\<not> (\<exists>e. run_valuation self = Inl e)" by simp
  then have ne: "growth_rates self \<noteq> []" by (simp add: run_valuation_fails)
  have f: "fcfs r = projected_fcfs self" using assms(1) by (rule run_valuation_fcfs)
  have fne: "fcfs r \<noteq> []" using ne f projected_fcfs_length [of self] by auto
  let ?m = "map (\<lambda>tg. map (\<lambda>w. grid_value (fcfs r) w tg) wacc_range) tg_range"
  have m: "sensitivity_analysis self wacc_range tg_range = Inr ?m"
    using sensitivity_analysis_grid [OF ne] f by simp
  have cell: "?m ! i ! j = Fin (enterprise_value r)"
    using assms(2-5) grid_value_run_valuation [OF assms(1)] by simp
  have cells: "\<forall>i'<length tg_range.
                length (?m ! i') = length wacc_range \<and>
                (\<forall>j'<length wacc_range.
                   sweep_cell (fcfs r) (wacc_range ! j') (tg_range ! i') = Inr (?m ! i' ! j'))"
    by (simp add: sweep_cell_value [OF fne])
  show ?thesis using m cell cells by simp
qed

theorem sweep_matches_base_witness:
  "run_valuation flat_case = Inr flat_result \<and>
   0 < length example_growths \<and> 1 < length example_rates \<and>
   example_growths ! 0 = terminal_growth flat_case \<and> example_rates ! 1 = wacc flat_case \<and>
   sensitivity_analysis flat_case example_rates example_growths = Inr example_matrix \<and>
   example_matrix ! 0 ! 1 = Fin (enterprise_value flat_result)"
proof -
  have h2: "0 < length example_growths" by (simp add: example_growths_def)
  have h3: "1 < length example_rates" by (simp add: example_rates_def)
  have h4: "example_growths ! 0 = terminal_growth flat_case"
    by (simp add: example_growths_def flat_case_def)
  have h5: "example_rates ! 1 = wacc flat_case"
    by (simp add: example_rates_def flat_case_def)
  from sweep_matches_base [OF run_valuation_flat_case h2 h3 h4 h5] obtain m where
    m: "sensitivity_analysis flat_case example_rates example_growths = Inr m"
    and c: "m ! 0 ! 1 = Fin (enterprise_value flat_result)"
    by (elim exE conjE) (rule that, assumption+)
  have eq: "m = example_matrix" using m sweep_flat_case by simp
  from c have c': "example_matrix ! 0 ! 1 = Fin (enterprise_value flat_result)"
    unfolding eq .
  show ?thesis
    using run_valuation_flat_case h2 h3 h4 h5 sweep_flat_case c' by blast
qed

text \<open>
  C4, as the code has it. For a model with at least one growth rate the sweep never
  rejects a configuration and never aborts: it returns the whole matrix. A cell whose rate
  equals its growth rate (or is -1) holds a non-finite float, the inf or nan that numpy's
  division by zero leaves there. Every other cell, its rate above the growth rate or
  below it, holds the enterprise value that the base valuation computes with that rate and
  that growth rate.
\<close>

theorem sweep_cells:
  assumes "growth_rates self \<noteq> []"
  shows "\<exists>m. sensitivity_analysis self wacc_range tg_range = Inr m \<and>
             length m = length tg_range \<and>
             (\<forall>i<length tg_range.
                length (m ! i) = length wacc_range \<and>
                (\<forall>j<length wacc_range.
                   (wacc_range ! j = tg_range ! i \<or> wacc_range ! j = - 1 \<longrightarrow>
                      m ! i ! j = NonFinite) \<and>
                   (wacc_range ! j \<noteq> tg_range ! i \<and> wacc_range ! j \<noteq> - 1 \<longrightarrow>
                      (\<exists>r. run_valuation
                             (self\<lparr>wacc := wacc_range ! j, terminal_growth := tg_range ! i\<rparr>)
                             = Inr r \<and>
                           m ! i ! j = Fin (enterprise_value r)))))"
proof -
  let ?fs = "projected_fcfs self"
  let ?m = "map (\<lambda>tg. map (\<lambda>w. grid_value ?fs w tg) wacc_range) tg_range"
  have m: "sensitivity_analysis self wacc_range tg_range = Inr ?m"
    by (rule sensitivity_analysis_grid [OF assms])
  have feasible: "\<exists>r. run_valuation (self\<lparr>wacc := w, terminal_growth := tg\<rparr>) = Inr r \<and>
                      grid_value ?fs w tg = Fin (enterprise_value r)"
    if "w \<noteq> tg" and "w \<noteq> - 1" for w tg
  proof -
    let ?s = "self\<lparr>wacc := w, terminal_growth := tg\<rparr>"
    have "\<not> (\<exists>e. run_valuation ?s = Inl e)"
      using that assms by (simp add: run_valuation_fails)
    then obtain r where r: "run_valuation ?s = Inr r"
      by (cases "run_valuation ?s") auto
    have "fcfs r = ?fs" using run_valuation_fcfs [OF r] by (simp add: projected_fcfs_rates)
    then show ?thesis using r grid_value_run_valuation [OF r] by simp
  qed
  have cells: "\<forall>i<length tg_range.
                length (?m ! i) = length wacc_range \<and>
                (\<forall>j<length wacc_range.
                   (wacc_range ! j = tg_range ! i \<or> wacc_range ! j = - 1 \<longrightarrow>
                      ?m ! i ! j = NonFinite) \<and>
                   (wacc_range ! j \<noteq> tg_range ! i \<and> wacc_range ! j \<noteq> - 1 \<longrightarrow>
                      (\<exists>r. run_valuation
                             (self\<lparr>wacc := wacc_range ! j, terminal_growth := tg_range ! i\<rparr>)
                             = Inr r \<and>
                           ?m ! i ! j = Fin (enterprise_value r))))"
    using feasible by (auto simp add: grid_value_def)
  show ?thesis using m cells by simp
qed

theorem sweep_cells_witness:
  "growth_rates flat_case \<noteq> [] \<and>
   sensitivity_analysis flat_case example_rates example_growths = Inr example_matrix \<and>
   1 < length example_growths \<and> 0 < length example_rates \<and> 1 < length example_rates \<and>
   example_rates ! 0 = example_growths ! 1 \<and>
   example_matrix ! 1 ! 0 = NonFinite \<and>
   example_rates ! 1 \<noteq> example_growths ! 1 \<and> example_rates ! 1 \<noteq> - 1 \<and>
   example_matrix ! 1 ! 1
     = Fin (enterprise_value
             (projr (run_valuation (flat_case\<lparr>wacc := example_rates ! 1,
                                               terminal_growth := example_growths ! 1\<rparr>))))"
proof -
  have h: "growth_rates flat_case \<noteq> []" by (simp add: flat_case_def)
  have i1: "1 < length example_growths" by (simp add: example_growths_def)
  have j0: "0 < length example_rates" by (simp add: example_rates_def)
  have j1: "1 < length example_rates" by (simp add: example_rates_def)
  have g1: "example_rates ! 0 = example_growths ! 1"
    by (simp add: example_rates_def example_growths_def)
  have g2: "example_rates ! 1 \<noteq> example_growths ! 1 \<and> example_rates ! 1 \<noteq> - 1"
    by (simp add: example_rates_def example_growths_def)
  from sweep_cells [OF h, of example_rates example_growths] obtain m where
    m: "sensitivity_analysis flat_case example_rates example_growths = Inr m"
    and cells: "\<forall>i<length example_growths.
                length (m ! i) = length example_rates \<and>
                (\<forall>j<length example_rates.
                   (example_rates ! j = example_growths ! i \<or> example_rates ! j = - 1 \<longrightarrow>
                      m ! i ! j = NonFinite) \<and>
                   (example_rates ! j \<noteq> example_growths ! i \<and> example_rates ! j \<noteq> - 1 \<longrightarrow>
                      (\<exists>r. run_valuation
                             (flat_case\<lparr>wacc := example_rates ! j,
                                          terminal_growth := example_growths ! i\<rparr>)
                             = Inr r \<and>
                           m ! i ! j = Fin (enterprise_value r))))"
    by (elim exE conjE) (rule that, assumption+)
  have eq: "m = example_matrix" using m sweep_flat_case by simp
  note row = cells [THEN spec, of "1::nat", THEN mp, OF i1, THEN conjunct2]
  note c0 = row [THEN spec, of "0::nat", THEN mp, OF j0, THEN conjunct1]
  note c1 = row [THEN spec, of "1::nat", THEN mp, OF j1, THEN conjunct2]
  from c0 g1 have n: "m ! 1 ! 0 = NonFinite" by blast
  from c1 g2 obtain r where
    r: "run_valuation (flat_case\<lparr>wacc := example_rates ! 1,
                                  terminal_growth := example_growths ! 1\<rparr>) = Inr r"
    and v: "m ! 1 ! 1 = Fin (enterprise_value r)"
    by blast
  have p: "projr (run_valuation (flat_case\<lparr>wacc := example_rates ! 1,
                                  terminal_growth := example_growths ! 1\<rparr>)) = r"
    using r by simp
  from n have n': "example_matrix ! 1 ! 0 = NonFinite" unfolding eq .
  from v have v': "example_matrix ! 1 ! 1
     = Fin (enterprise_value
             (projr (run_valuation (flat_case\<lparr>wacc := example_rates ! 1,
                                               terminal_growth := example_growths ! 1\<rparr>))))"
    unfolding eq p .
  show ?thesis
    using h sweep_flat_case i1 j0 j1 g1 g2 n' v' by blast
qed

text \<open>
  The claim as stated has a cell with a rate at most its growth rate marked by a
  documented sentinel, or the configuration rejected. On the scenario, with rates of 3
  and 10 percent and a growth rate of 5 percent, the sweep returns, and the cell of the
  3 percent rate holds an ordinary number.
\<close>

theorem sweep_cells_counterexample:
  "[3 / 100, 10 / 100 :: real] ! 0 \<le> [5 / 100] ! 0 \<and>
   sensitivity_analysis scenario [3 / 100, 10 / 100] [5 / 100] =
     Inr [[Fin (- (90582130500 / 112550881)), Fin (52659282 / 166375)]]"
  by code_simp

section \<open>Monotonicity of the enterprise value\<close>

lemma project_loop_positive:
  "revs \<noteq> [] \<Longrightarrow> \<forall>x\<in>set revs. 0 < x \<Longrightarrow> \<forall>g\<in>set gs. - 1 < g \<Longrightarrow>
   \<forall>x\<in>set (project_loop revs gs). 0 < x"
proof (induction gs arbitrary: revs)
  case Nil
  then show ?case by simp
next
  case (Cons g gs)
  have "0 < last revs" using Cons.prems(1,2) by simp
  moreover have "0 < 1 + g" using Cons.prems(3) by simp
  ultimately have "0 < last revs * (1 + g)" by simp
  then have "\<forall>x\<in>set (revs @ [last revs * (1 + g)]). 0 < x"
    using Cons.prems(2) by simp
  moreover have "\<forall>g\<in>set gs. - 1 < g" using Cons.prems(3) by simp
  ultimately have "\<forall>x\<in>set (project_loop (revs @ [last revs * (1 + g)]) gs). 0 < x"
    by (intro Cons.IH) simp_all
  then show ?case by simp
qed

lemma projected_fcfs_positive:
  assumes "0 < current_revenue self" and "0 < ebit_margin self" and "0 < fcf_conversion self"
    and "tax_rate self < 1" and "\<forall>g\<in>set (growth_rates self). - 1 < g"
  shows "\<forall>x\<in>set (projected_fcfs self). 0 < x"
proof -
  have "\<forall>x\<in>set (project_loop [current_revenue self] (growth_rates self)). 0 < x"
    using assms(1,5) by (intro project_loop_positive) simp_all
  then have "\<forall>x\<in>set (project_revenue self). 0 < x"
    unfolding project_revenue_def by (meson in_set_dropD)
  then show ?thesis
    using assms(2,3,4)
    by (simp add: projected_fcfs_def calculate_fcf_def calculate_nopat_def calculate_ebit_def)
qed

lemma five_elements:
  assumes "length (xs :: real list) = 5"
  obtains a b c d e where "xs = [a, b, c, d, e]"
proof -
  from assms obtain a b c d e where "xs = [a, b, c, d, e]"
    by (auto simp: length_Suc_conv eval_nat_numeral)
  then show ?thesis by (rule that)
qed

lemma factors_explicit:
  "factors w = [1 / (1 + w), 1 / (1 + w) ^ 2, 1 / (1 + w) ^ 3, 1 / (1 + w) ^ 4, 1 / (1 + w) ^ 5]"
  by (simp add: factors_def upt_rec numeral_eq_Suc)

lemma ev_closed_form:
  assumes "w \<noteq> - 1" and "w \<noteq> tg"
  shows "py_sum (map (\<lambda>(fcf, df). fcf * df) (zip [a, b, c, d, e] (factors w)))
           + last [a, b, c, d, e] * (1 + tg) / (w - tg) * (1 / (1 + w) ^ 5)
         = a / (1 + w) + b / (1 + w) ^ 2 + c / (1 + w) ^ 3 + d / (1 + w) ^ 4
           + e / ((1 + w) ^ 4 * (w - tg))"
proof -
  have w1: "1 + w \<noteq> 0" using assms(1) by auto
  have w2: "w - tg \<noteq> 0" using assms(2) by simp
  have w4: "(1 + w) ^ 4 \<noteq> 0" using w1 by simp
  have alg: "e / (p * P) + e * (p - q) / q * (1 / (p * P)) = e / (P * q)"
    if "p \<noteq> 0" "P \<noteq> 0" "q \<noteq> 0" for p P q :: real
    using that by (simp add: field_simps)
  have p5: "(1 + w) ^ 5 = (1 + w) * (1 + w) ^ 4"
    by (simp add: eval_nat_numeral)
  have g: "1 + tg = (1 + w) - (w - tg)" by simp
  have "e / (1 + w) ^ 5 + e * (1 + tg) / (w - tg) * (1 / (1 + w) ^ 5)
        = e / ((1 + w) ^ 4 * (w - tg))"
    by (simp only: p5 g alg [OF w1 w4 w2])
  then show ?thesis
    by (simp add: factors_explicit py_sum_def)
qed


lemma projected_fcfs_wacc: "projected_fcfs (self\<lparr>wacc := w\<rparr>) = projected_fcfs self"
  by (simp add: projected_fcfs_def calculate_fcf_def calculate_nopat_def calculate_ebit_def
      project_revenue_def)

lemma projected_fcfs_terminal_growth:
  "projected_fcfs (self\<lparr>terminal_growth := tg\<rparr>) = projected_fcfs self"
  by (simp add: projected_fcfs_def calculate_fcf_def calculate_nopat_def calculate_ebit_def
      project_revenue_def)

lemma enterprise_value_closed:
  assumes "projected_fcfs self = [a, b, c, d, e]"
    and "wacc self \<noteq> - 1" and "wacc self \<noteq> terminal_growth self"
  shows "\<exists>r. run_valuation self = Inr r \<and>
             enterprise_value r =
               a / (1 + wacc self) + b / (1 + wacc self) ^ 2 + c / (1 + wacc self) ^ 3
               + d / (1 + wacc self) ^ 4
               + e / ((1 + wacc self) ^ 4 * (wacc self - terminal_growth self))"
proof -
  have ne: "growth_rates self \<noteq> []"
    using assms(1) projected_fcfs_length [of self] by auto
  note ok = run_valuation_ok [OF ne assms(2,3)]
  show ?thesis
    unfolding ok assms(1)
    using ev_closed_form [OF assms(2,3), of a b c d e] by simp
qed

lemma term_decreasing:
  assumes "0 < (f :: real)" and "- 1 < (w1 :: real)" and "w1 < w2" and "0 < n"
  shows "f / (1 + w2) ^ n < f / (1 + w1) ^ n"
proof -
  have p1: "0 < 1 + w1" using assms(2) by simp
  have lt: "(1 + w1) ^ n < (1 + w2) ^ n"
    using assms(3,4) p1 by (intro power_strict_mono) simp_all
  have pos1: "0 < (1 + w1) ^ n" using p1 by simp
  have pos2: "0 < (1 + w2) ^ n" using p1 assms(3) by simp
  show ?thesis
    using lt assms(1) pos1 pos2 by (intro divide_strict_left_mono) simp_all
qed

lemma tail_decreasing:
  assumes "0 < (f :: real)" and "- 1 < (w1 :: real)" and "w1 < w2" and "tg < w1"
  shows "f / ((1 + w2) ^ 4 * (w2 - tg)) < f / ((1 + w1) ^ 4 * (w1 - tg))"
proof -
  have p1: "0 < 1 + w1" using assms(2) by simp
  have lt4: "(1 + w1) ^ 4 < (1 + w2) ^ 4"
    using assms(3) p1 by (intro power_strict_mono) simp_all
  have pos1: "0 < (1 + w1) ^ 4" using p1 by simp
  have q1: "0 < w1 - tg" using assms(4) by simp
  have q: "w1 - tg < w2 - tg" using assms(3) by simp
  have pos2: "0 < (1 + w2) ^ 4" by (rule less_trans [OF pos1 lt4])
  have lt: "(1 + w1) ^ 4 * (w1 - tg) < (1 + w2) ^ 4 * (w2 - tg)"
    by (rule mult_strict_mono [OF lt4 q pos2]) (use q1 in simp)
  have d1: "0 < (1 + w1) ^ 4 * (w1 - tg)" using pos1 q1 by simp
  have d2: "0 < (1 + w2) ^ 4 * (w2 - tg)" using d1 lt by simp
  show ?thesis
    using lt assms(1) d1 d2 by (intro divide_strict_left_mono) simp_all
qed

lemma tail_increasing:
  assumes "0 < (f :: real)" and "(w :: real) \<noteq> - 1" and "g1 < g2" and "g2 < w"
  shows "f / ((1 + w) ^ 4 * (w - g1)) < f / ((1 + w) ^ 4 * (w - g2))"
proof -
  have "1 + w \<noteq> 0" using assms(2) by auto
  then have pos: "0 < (1 + w) ^ 4" by (simp add: zero_less_power_eq)
  have q2: "0 < w - g2" using assms(4) by simp
  have q1: "0 < w - g1" using assms(3,4) by simp
  have lt: "(1 + w) ^ 4 * (w - g2) < (1 + w) ^ 4 * (w - g1)"
    using pos assms(3) by simp
  have d1: "0 < (1 + w) ^ 4 * (w - g1)" using pos q1 by simp
  have d2: "0 < (1 + w) ^ 4 * (w - g2)" using pos q2 by simp
  show ?thesis
    using lt assms(1) d1 d2 by (intro divide_strict_left_mono) simp_all
qed

text \<open>
  C8, as the code has it. For a record with positive revenue, margin and conversion, a
  tax rate in \<open>[0, 1)\<close>, five growth rates each above -1, and
  \<open>wacc > terminal_growth\<close>, \<open>wacc > -1\<close>: the base valuation returns; with a larger
  \<open>wacc\<close> and everything else fixed it returns a strictly smaller enterprise value; with
  a larger \<open>terminal_growth\<close>, still below \<open>wacc\<close>, and everything else fixed it returns
  a strictly larger one.
\<close>

theorem enterprise_value_monotone:
  assumes "0 < current_revenue self" and "0 < ebit_margin self" and "0 < fcf_conversion self"
    and "0 \<le> tax_rate self" and "tax_rate self < 1"
    and "length (growth_rates self) = 5" and "\<forall>g\<in>set (growth_rates self). - 1 < g"
    and "terminal_growth self < wacc self" and "- 1 < wacc self"
  shows "(\<forall>w'. wacc self < w' \<longrightarrow>
            (\<exists>r r'. run_valuation self = Inr r \<and>
                     run_valuation (self\<lparr>wacc := w'\<rparr>) = Inr r' \<and>
                     enterprise_value r' < enterprise_value r)) \<and>
         (\<forall>g'. terminal_growth self < g' \<and> g' < wacc self \<longrightarrow>
            (\<exists>r r'. run_valuation self = Inr r \<and>
                     run_valuation (self\<lparr>terminal_growth := g'\<rparr>) = Inr r' \<and>
                     enterprise_value r < enterprise_value r'))"
proof -
  have len: "length (projected_fcfs self) = 5"
    using assms(6) by (simp add: projected_fcfs_length)
  then obtain a b c d e where fs: "projected_fcfs self = [a, b, c, d, e]"
    by (rule five_elements)
  have "\<forall>x\<in>set (projected_fcfs self). 0 < x"
    by (rule projected_fcfs_positive [OF assms(1,2,3,5,7)])
  then have pos: "0 < a" "0 < b" "0 < c" "0 < d" "0 < e"
    unfolding fs by simp_all
  let ?w = "wacc self" and ?g = "terminal_growth self"
  have w1: "?w \<noteq> - 1" using assms(9) by simp
  have wg: "?w \<noteq> ?g" using assms(8) by simp
  from enterprise_value_closed [OF fs w1 wg] obtain r where
    r: "run_valuation self = Inr r"
    and ev: "enterprise_value r =
               a / (1 + ?w) + b / (1 + ?w) ^ 2 + c / (1 + ?w) ^ 3 + d / (1 + ?w) ^ 4
               + e / ((1 + ?w) ^ 4 * (?w - ?g))"
    by blast
  have rate: "\<exists>r r'. run_valuation self = Inr r \<and>
                     run_valuation (self\<lparr>wacc := w'\<rparr>) = Inr r' \<and>
                     enterprise_value r' < enterprise_value r"
    if lt: "?w < w'" for w'
  proof -
    let ?s = "self\<lparr>wacc := w'\<rparr>"
    have fs': "projected_fcfs ?s = [a, b, c, d, e]"
      using fs by (simp add: projected_fcfs_wacc)
    have c1: "wacc ?s \<noteq> - 1" using assms(9) lt by simp
    have c2: "wacc ?s \<noteq> terminal_growth ?s" using assms(8) lt by simp
    from enterprise_value_closed [OF fs' c1 c2] obtain r' where
      r': "run_valuation ?s = Inr r'"
      and ev': "enterprise_value r' =
               a / (1 + w') + b / (1 + w') ^ 2 + c / (1 + w') ^ 3 + d / (1 + w') ^ 4
               + e / ((1 + w') ^ 4 * (w' - ?g))"
      by auto
    have t1: "a / (1 + w') < a / (1 + ?w)"
      using term_decreasing [OF pos(1) assms(9) lt, of 1] by simp
    have t2: "b / (1 + w') ^ 2 < b / (1 + ?w) ^ 2"
      using term_decreasing [OF pos(2) assms(9) lt, of 2] by simp
    have t3: "c / (1 + w') ^ 3 < c / (1 + ?w) ^ 3"
      using term_decreasing [OF pos(3) assms(9) lt, of 3] by simp
    have t4: "d / (1 + w') ^ 4 < d / (1 + ?w) ^ 4"
      using term_decreasing [OF pos(4) assms(9) lt, of 4] by simp
    have t5: "e / ((1 + w') ^ 4 * (w' - ?g)) < e / ((1 + ?w) ^ 4 * (?w - ?g))"
      by (rule tail_decreasing [OF pos(5) assms(9) lt assms(8)])
    have "enterprise_value r' < enterprise_value r"
      unfolding ev ev' using t1 t2 t3 t4 t5 by linarith
    then show ?thesis using r r' by blast
  qed
  have growth: "\<exists>r r'. run_valuation self = Inr r \<and>
                     run_valuation (self\<lparr>terminal_growth := g'\<rparr>) = Inr r' \<and>
                     enterprise_value r < enterprise_value r'"
    if lt: "?g < g'" and below: "g' < ?w" for g'
  proof -
    let ?s = "self\<lparr>terminal_growth := g'\<rparr>"
    have fs': "projected_fcfs ?s = [a, b, c, d, e]"
      using fs by (simp add: projected_fcfs_terminal_growth)
    have c1: "wacc ?s \<noteq> - 1" using assms(9) by simp
    have c2: "wacc ?s \<noteq> terminal_growth ?s" using below by simp
    from enterprise_value_closed [OF fs' c1 c2] obtain r' where
      r': "run_valuation ?s = Inr r'"
      and ev': "enterprise_value r' =
               a / (1 + ?w) + b / (1 + ?w) ^ 2 + c / (1 + ?w) ^ 3 + d / (1 + ?w) ^ 4
               + e / ((1 + ?w) ^ 4 * (?w - g'))"
      by auto
    have t5: "e / ((1 + ?w) ^ 4 * (?w - ?g)) < e / ((1 + ?w) ^ 4 * (?w - g'))"
      by (rule tail_increasing [OF pos(5) w1 lt below])
    have "enterprise_value r < enterprise_value r'"
      unfolding ev ev' using t5 by linarith
    then show ?thesis using r r' by blast
  qed
  show ?thesis using rate growth by blast
qed


theorem enterprise_value_monotone_witness:
  "0 < current_revenue flat_case \<and> 0 < ebit_margin flat_case \<and>
   0 < fcf_conversion flat_case \<and> 0 \<le> tax_rate flat_case \<and> tax_rate flat_case < 1 \<and>
   length (growth_rates flat_case) = 5 \<and> list_all (\<lambda>g. - 1 < g) (growth_rates flat_case) \<and>
   terminal_growth flat_case < wacc flat_case \<and> - 1 < wacc flat_case \<and>
   wacc flat_case < 2 \<and>
   enterprise_value (projr (run_valuation (flat_case\<lparr>wacc := 2\<rparr>)))
     < enterprise_value (projr (run_valuation flat_case)) \<and>
   terminal_growth flat_case < 1 / 2 \<and> 1 / 2 < wacc flat_case \<and>
   enterprise_value (projr (run_valuation flat_case))
     < enterprise_value (projr (run_valuation (flat_case\<lparr>terminal_growth := 1 / 2\<rparr>)))"
proof -
  have h: "0 < current_revenue flat_case" "0 < ebit_margin flat_case"
    "0 < fcf_conversion flat_case" "0 \<le> tax_rate flat_case" "tax_rate flat_case < 1"
    "length (growth_rates flat_case) = 5" "\<forall>g\<in>set (growth_rates flat_case). - 1 < g"
    "terminal_growth flat_case < wacc flat_case" "- 1 < wacc flat_case"
    by (simp_all add: flat_case_def)
  have l: "list_all (\<lambda>g. - 1 < g) (growth_rates flat_case)"
    using h(7) by (simp add: list_all_iff)
  have a: "wacc flat_case < 2" by (simp add: flat_case_def)
  have b: "terminal_growth flat_case < 1 / 2 \<and> 1 / 2 < wacc flat_case"
    by (simp add: flat_case_def)
  note t = enterprise_value_monotone [OF h]
  note t1 = t [THEN conjunct1, THEN spec, of 2, THEN mp, OF a]
  note t2 = t [THEN conjunct2, THEN spec, of "1 / 2", THEN mp, OF b]
  from t1 obtain r r' where
    "run_valuation flat_case = Inr r" "run_valuation (flat_case\<lparr>wacc := 2\<rparr>) = Inr r'"
    "enterprise_value r' < enterprise_value r"
    by blast
  then have c1: "enterprise_value (projr (run_valuation (flat_case\<lparr>wacc := 2\<rparr>)))
     < enterprise_value (projr (run_valuation flat_case))"
    by simp
  from t2 obtain q q' where
    "run_valuation flat_case = Inr q"
    "run_valuation (flat_case\<lparr>terminal_growth := 1 / 2\<rparr>) = Inr q'"
    "enterprise_value q < enterprise_value q'"
    by blast
  then have c2: "enterprise_value (projr (run_valuation flat_case))
     < enterprise_value (projr (run_valuation (flat_case\<lparr>terminal_growth := 1 / 2\<rparr>)))"
    by simp
  show ?thesis using h(1-6,8,9) l a b c1 c2 by blast
qed

text \<open>
  The claim as stated asks only for positive revenue, margin and conversion, a tax rate
  in \<open>[0, 1)\<close> and \<open>wacc > terminal_growth\<close>. With a growth rate of -1 in the first year
  every cash flow is zero and the enterprise value is 0 at every rate and every terminal
  growth rate. With \<open>wacc\<close> below -1 the discount factors alternate in sign, and raising
  \<open>wacc\<close> from -3 to -2 raises the enterprise value.
\<close>

theorem enterprise_value_monotone_counterexample:
  "0 < current_revenue collapse_case \<and> 0 < ebit_margin collapse_case \<and>
   0 < fcf_conversion collapse_case \<and> 0 \<le> tax_rate collapse_case \<and>
   tax_rate collapse_case < 1 \<and> length (growth_rates collapse_case) = 5 \<and>
   terminal_growth collapse_case < wacc collapse_case \<and>
   wacc collapse_case < 12 / 100 \<and>
   map_sum id enterprise_value (run_valuation collapse_case) = Inr 0 \<and>
   map_sum id enterprise_value (run_valuation (collapse_case\<lparr>wacc := 12 / 100\<rparr>)) = Inr 0 \<and>
   terminal_growth collapse_case < 5 / 100 \<and> 5 / 100 < wacc collapse_case \<and>
   map_sum id enterprise_value (run_valuation (collapse_case\<lparr>terminal_growth := 5 / 100\<rparr>))
     = Inr 0 \<and>
   0 < current_revenue negative_rate_case \<and> 0 < ebit_margin negative_rate_case \<and>
   0 < fcf_conversion negative_rate_case \<and> 0 \<le> tax_rate negative_rate_case \<and>
   tax_rate negative_rate_case < 1 \<and> length (growth_rates negative_rate_case) = 5 \<and>
   terminal_growth negative_rate_case < wacc negative_rate_case \<and>
   wacc negative_rate_case < - 2 \<and>
   map_sum id enterprise_value (run_valuation negative_rate_case) = Inr (- (425 / 14)) \<and>
   map_sum id enterprise_value (run_valuation (negative_rate_case\<lparr>wacc := - 2\<rparr>))
     = Inr (25 / 2)"
  by code_simp

end
